theory Spec2Isabelle
  imports Complex_Main
begin

section \<open>Torsion checks of fib Model Code 2010, clause 7.3.4\<close>

text \<open>
  The module \<^verbatim>\<open>structuralcodes/codes/mc2010/_concrete_torsion.py\<close> holds three
  formulas: \<^verbatim>\<open>v_ed_ti\<close>, \<^verbatim>\<open>t_rd_max\<close> and \<^verbatim>\<open>t_rd\<close>.
  Python floats are read as real numbers, so every statement below is one of
  real arithmetic: rounding, overflow and the finite range of a double are
  outside the model. What Python raises is a value of the type \<open>error\<close>:
  a function returns \<open>Inl e\<close> where the source raises and \<open>Inr v\<close> where it
  returns \<open>v\<close>.

  Angles are given in degrees and converted with \<^verbatim>\<open>theta * pi / 180\<close>, as
  in the source. A division raises exactly when its divisor is the real
  number zero. For \<^verbatim>\<open>1 / tan(x)\<close> that is at every multiple of 180
  degrees, where the tangent is zero, and at the poles of the tangent (90
  degrees and its odd multiples), where the real tangent has no value and
  \<open>tan\<close> of HOL is zero. Every statement below that gives a value at
  levels 2 and 3 is about a call that returns, and so about none of these
  angles.
\<close>

subsection \<open>Exceptions as values\<close>

datatype error = ZeroDivisionError | TypeError | UnboundLocalError | ValueError

text \<open>
  The first three are the exceptions the module can raise. \<open>ValueError\<close> is
  Python's exception for an argument of the right type and an inappropriate
  value, an invalid-argument error. The module has no \<^verbatim>\<open>raise\<close> statement
  and no call that raises it, so no definition below produces it; it is here
  to be told apart from what the code does raise.
\<close>

text \<open>Sequencing: the first exception raised ends the evaluation.\<close>

definition then_r :: "error + 'a \<Rightarrow> ('a \<Rightarrow> error + 'b) \<Rightarrow> error + 'b" where
  "then_r r f = (case r of Inl e \<Rightarrow> Inl e | Inr v \<Rightarrow> f v)"

text \<open>Python's true division \<^verbatim>\<open>x / y\<close> raises on a zero divisor.\<close>

definition py_div :: "real \<Rightarrow> real \<Rightarrow> error + real" where
  "py_div x y = (if y = 0 then Inl ZeroDivisionError else Inr (x / y))"

subsection \<open>The helpers imported from the shear module\<close>

text \<open>
  \<^verbatim>\<open>epsilon_x\<close> and \<^verbatim>\<open>v_rd_max\<close> are imported from
  \<^verbatim>\<open>_concrete_shear\<close>; the torsion module only calls them. They are
  parameters of the model, with the argument order of their call sites:
  \<^verbatim>\<open>epsilon_x(E_s, As, Med, Ved, Ned, z, delta_e)\<close> and
  \<^verbatim>\<open>v_rd_max(approx_lvl_s, fck, bw, theta, z, E_s, As, Med, Ved, Ned, delta_e, alfa, gamma_c)\<close>.
\<close>

type_synonym epsilon_x_fn =
  "real \<Rightarrow> real \<Rightarrow> real \<Rightarrow> real \<Rightarrow> real \<Rightarrow> real \<Rightarrow> real \<Rightarrow> real"

type_synonym v_rd_max_fn =
  "int \<Rightarrow> real \<Rightarrow> real \<Rightarrow> real \<Rightarrow> real \<Rightarrow> real \<Rightarrow> real \<Rightarrow> real \<Rightarrow> real \<Rightarrow> real \<Rightarrow> real \<Rightarrow> real \<Rightarrow> real \<Rightarrow> real"

subsection \<open>\<^verbatim>\<open>v_ed_ti\<close>, eq. (7.3-53)\<close>

text \<open>\<^verbatim>\<open>return t_ed * z_i / (2 * a_k)\<close>\<close>

definition v_ed_ti :: "real \<Rightarrow> real \<Rightarrow> real \<Rightarrow> error + real" where
  "v_ed_ti t_ed a_k z_i = py_div (t_ed * z_i) (2 * a_k)"

subsection \<open>\<^verbatim>\<open>t_rd_max\<close>, eq. (7.3-56)\<close>

text \<open>\<^verbatim>\<open>t_ef = d_k / 8\<close>\<close>

definition t_ef :: "real \<Rightarrow> real" where
  "t_ef d_k = d_k / 8"

text \<open>
  \<^verbatim>\<open>nfc = min((30 / f_ck) ** (1 / 3), 1)\<close>. The division raises for
  \<^verbatim>\<open>f_ck == 0\<close>. For a negative base and the exponent \<^verbatim>\<open>1 / 3\<close>
  Python's \<^verbatim>\<open>**\<close> gives a complex number, which \<^verbatim>\<open>min\<close>
  cannot order against \<^verbatim>\<open>1\<close>: \<^verbatim>\<open>TypeError\<close>.
\<close>

definition nfc :: "real \<Rightarrow> error + real" where
  "nfc f_ck =
     then_r (py_div 30 f_ck) (\<lambda>q.
       if q < 0 then Inl TypeError else Inr (min (q powr (1 / 3)) 1))"

text \<open>
  The branch on \<^verbatim>\<open>approx_lvl_s\<close> (lines 63 to 75) that assigns
  \<^verbatim>\<open>k_epsilon\<close>. No branch is taken for a level other than 1, 2 and 3,
  the local variable stays unbound, and reading it on line 76 raises
  \<^verbatim>\<open>UnboundLocalError\<close>.
\<close>

definition k_epsilon ::
  "epsilon_x_fn \<Rightarrow> real \<Rightarrow> int \<Rightarrow> real \<Rightarrow> real \<Rightarrow> real \<Rightarrow> real \<Rightarrow> real \<Rightarrow> real \<Rightarrow> real \<Rightarrow> error + real" where
  "k_epsilon epsilon_x theta approx_lvl_s E_s As Med Ved Ned z delta_e =
     (if approx_lvl_s = 1 then Inr 0.55
      else if approx_lvl_s = 2 then
        then_r (py_div 1 (tan (theta * pi / 180))) (\<lambda>cot_theta.
          let epsilon_1 = epsilon_x E_s As Med Ved Ned z delta_e
                + (epsilon_x E_s As Med Ved Ned z delta_e + 0.002) * cot_theta ^ 2
          in then_r (py_div 1 (1.2 + 55 * epsilon_1)) (\<lambda>k. Inr (min k 0.65)))
      else if approx_lvl_s = 3 then
        let theta_min = 20 + 10000 * epsilon_x E_s As Med Ved Ned z delta_e
        in then_r (py_div 1 (tan (theta_min * pi / 180))) (\<lambda>cot_theta_min.
          let epsilon_1 = epsilon_x E_s As Med Ved Ned z delta_e
                + (epsilon_x E_s As Med Ved Ned z delta_e + 0.002) * cot_theta_min ^ 2
          in then_r (py_div 1 (1.2 + 55 * epsilon_1)) (\<lambda>k. Inr (min k 0.65)))
      else Inl UnboundLocalError)"

text \<open>\<^verbatim>\<open>k_c = nfc * k_epsilon\<close>, with \<^verbatim>\<open>nfc\<close> computed first (line 61).\<close>

definition k_c ::
  "epsilon_x_fn \<Rightarrow> real \<Rightarrow> real \<Rightarrow> int \<Rightarrow> real \<Rightarrow> real \<Rightarrow> real \<Rightarrow> real \<Rightarrow> real \<Rightarrow> real \<Rightarrow> real \<Rightarrow> error + real" where
  "k_c epsilon_x f_ck theta approx_lvl_s E_s As Med Ved Ned z delta_e =
     then_r (nfc f_ck) (\<lambda>n.
     then_r (k_epsilon epsilon_x theta approx_lvl_s E_s As Med Ved Ned z delta_e) (\<lambda>k.
       Inr (n * k)))"

text \<open>
  The returned expression (lines 78 to 87):
  \<^verbatim>\<open>k_c * f_ck * t_ef * 2 * a_k * sin(theta * pi / 180) * cos(theta * pi / 180) / gamma_c\<close>.
\<close>

definition t_rd_max ::
  "epsilon_x_fn \<Rightarrow> real \<Rightarrow> real \<Rightarrow> real \<Rightarrow> real \<Rightarrow> real \<Rightarrow> int \<Rightarrow> real \<Rightarrow> real \<Rightarrow> real \<Rightarrow> real \<Rightarrow> real \<Rightarrow> real \<Rightarrow> real \<Rightarrow> error + real" where
  "t_rd_max epsilon_x f_ck gamma_c d_k a_k theta approx_lvl_s E_s As Med Ved Ned z delta_e =
     then_r (k_c epsilon_x f_ck theta approx_lvl_s E_s As Med Ved Ned z delta_e) (\<lambda>kc.
       py_div (kc * f_ck * t_ef d_k * 2 * a_k
                 * sin (theta * pi / 180) * cos (theta * pi / 180)) gamma_c)"

subsection \<open>\<^verbatim>\<open>t_rd\<close>, the interaction of torsion and shear\<close>

text \<open>
  \<^verbatim>\<open>bool((t_ed / t_rd_max(...)) ** 2 + (Ved / v_rd_max(...)) ** 2 <= 1)\<close>,
  the operands evaluated from left to right. The default \<^verbatim>\<open>gamma_c=1.5\<close>
  of the signature is the caller's to pass: \<open>gamma_c\<close> is an argument like
  the others.
\<close>

definition t_rd ::
  "epsilon_x_fn \<Rightarrow> v_rd_max_fn \<Rightarrow> real \<Rightarrow> int \<Rightarrow> real \<Rightarrow> real \<Rightarrow> real \<Rightarrow> real \<Rightarrow> real \<Rightarrow> real \<Rightarrow> real \<Rightarrow> real \<Rightarrow> real \<Rightarrow> real \<Rightarrow> real \<Rightarrow> real \<Rightarrow> real \<Rightarrow> real \<Rightarrow> real \<Rightarrow> error + bool" where
  "t_rd epsilon_x v_rd_max t_ed approx_lvl_s fck bw theta z E_s As Med Ved Ned delta_e alfa f_ck d_k a_k gamma_c =
     then_r (t_rd_max epsilon_x f_ck gamma_c d_k a_k theta approx_lvl_s E_s As Med Ved Ned z delta_e) (\<lambda>t_max.
     then_r (py_div t_ed t_max) (\<lambda>u_t.
     then_r (py_div Ved (v_rd_max approx_lvl_s fck bw theta z E_s As Med Ved Ned delta_e alfa gamma_c)) (\<lambda>u_v.
       Inr (u_t ^ 2 + u_v ^ 2 \<le> 1))))"

section \<open>Properties\<close>

subsection \<open>Shared facts\<close>

lemma then_r_Inr [simp]: "then_r (Inr v) f = f v"
  by (simp add: then_r_def)

lemma then_r_Inl [simp]: "then_r (Inl e) f = Inl e"
  by (simp add: then_r_def)

lemma py_div_Inr: "y \<noteq> 0 \<Longrightarrow> py_div x y = Inr (x / y)"
  by (simp add: py_div_def)

lemma nfc_eq:
  "nfc f_ck = (if f_ck = 0 then Inl ZeroDivisionError
               else if f_ck < 0 then Inl TypeError
               else Inr (min ((30 / f_ck) powr (1 / 3)) 1))"
  by (simp add: nfc_def py_div_def divide_less_0_iff not_less)

lemma nfc_le_1: "nfc f_ck = Inr n \<Longrightarrow> n \<le> 1"
  by (auto simp: nfc_eq split: if_splits)

lemma nfc_nonneg: "nfc f_ck = Inr n \<Longrightarrow> 0 \<le> n"
  by (auto simp: nfc_eq split: if_splits)

lemma cube_root_le_1: "30 \<le> f_ck \<Longrightarrow> (30 / f_ck) powr (1 / 3) \<le> 1" for f_ck :: real
  by (rule powr_le1) simp_all

lemma cube_root_gt_1: "0 < f_ck \<Longrightarrow> f_ck < 30 \<Longrightarrow> 1 < (30 / f_ck) powr (1 / 3)" for f_ck :: real
  using powr_less_mono2 [of "1 / 3" 1 "30 / f_ck"] by simp

lemma sin_cos_degrees:
  "sin (theta * pi / 180) * cos (theta * pi / 180) = sin (theta * pi / 90) / 2"
proof -
  have e: "theta * pi / 90 = 2 * (theta * pi / 180)" by simp
  have "sin (theta * pi / 90) = 2 * sin (theta * pi / 180) * cos (theta * pi / 180)"
    unfolding e by (rule sin_double)
  then show ?thesis by simp
qed

lemma sin_cos_nonneg:
  assumes "0 \<le> theta" and "theta \<le> 90"
  shows "0 \<le> sin (theta * pi / 180) * cos (theta * pi / 180)"
proof -
  have "0 \<le> theta * pi / 90" using assms(1) by simp
  moreover have "theta * pi / 90 \<le> pi" using assms(2) by simp
  ultimately have "0 \<le> sin (theta * pi / 90)" by (rule sin_ge_zero)
  then show ?thesis by (simp add: sin_cos_degrees)
qed

lemma k_epsilon_1: "k_epsilon epsilon_x theta 1 E_s As Med Ved Ned z delta_e = Inr 0.55"
  by (simp add: k_epsilon_def)

lemma k_epsilon_invalid:
  "approx_lvl_s \<noteq> 1 \<Longrightarrow> approx_lvl_s \<noteq> 2 \<Longrightarrow> approx_lvl_s \<noteq> 3 \<Longrightarrow>
   k_epsilon epsilon_x theta approx_lvl_s E_s As Med Ved Ned z delta_e = Inl UnboundLocalError"
  by (simp add: k_epsilon_def)

lemma k_epsilon_2:
  "k_epsilon epsilon_x theta 2 E_s As Med Ved Ned z delta_e =
     (if tan (theta * pi / 180) = 0 then Inl ZeroDivisionError
      else if 1.2 + 55 * (epsilon_x E_s As Med Ved Ned z delta_e
                + (epsilon_x E_s As Med Ved Ned z delta_e + 0.002)
                  * (1 / tan (theta * pi / 180))\<^sup>2) = 0
        then Inl ZeroDivisionError
      else Inr (min (1 / (1.2 + 55 * (epsilon_x E_s As Med Ved Ned z delta_e
                + (epsilon_x E_s As Med Ved Ned z delta_e + 0.002)
                  * (1 / tan (theta * pi / 180))\<^sup>2))) 0.65))"
  by (simp add: k_epsilon_def py_div_def Let_def)

text \<open>Level 3 is level 2 at the refined angle \<open>theta_min\<close>.\<close>

lemma k_epsilon_3:
  "k_epsilon epsilon_x theta 3 E_s As Med Ved Ned z delta_e =
     k_epsilon epsilon_x (20 + 10000 * epsilon_x E_s As Med Ved Ned z delta_e) 2 E_s As Med Ved Ned z delta_e"
  by (simp add: k_epsilon_def Let_def)

text \<open>
  Where the strain factor is not negative: always at level 1, and at levels 2
  and 3 whenever \<open>epsilon_x\<close> returns at least \<open>-0.002\<close>. The condition is
  sufficient, not necessary.
\<close>

lemma strain_denominator_pos:
  "- 0.002 \<le> e \<Longrightarrow> 0 \<le> p \<Longrightarrow> 0 < 1.2 + 55 * (e + p)" for e p :: real
  by simp

lemma k_epsilon_2_nonneg:
  assumes "- 0.002 \<le> epsilon_x E_s As Med Ved Ned z delta_e"
    and "k_epsilon epsilon_x theta 2 E_s As Med Ved Ned z delta_e = Inr k"
  shows "0 \<le> k"
proof -
  let ?ex = "epsilon_x E_s As Med Ved Ned z delta_e"
  let ?c = "1 / tan (theta * pi / 180)"
  have "0 \<le> (?ex + 0.002) * ?c\<^sup>2"
    using assms(1) by (intro mult_nonneg_nonneg) simp_all
  with assms(1) have "0 < 1.2 + 55 * (?ex + (?ex + 0.002) * ?c\<^sup>2)"
    by (rule strain_denominator_pos)
  then have m: "0 \<le> min (1 / (1.2 + 55 * (?ex + (?ex + 0.002) * ?c\<^sup>2))) 0.65"
    by simp
  from assms(2) have "k = min (1 / (1.2 + 55 * (?ex + (?ex + 0.002) * ?c\<^sup>2))) 0.65"
    by (auto simp: k_epsilon_2 split: if_splits)
  with m show ?thesis by (simp only:)
qed

lemma k_epsilon_nonneg:
  assumes "approx_lvl_s = 1 \<or> - 0.002 \<le> epsilon_x E_s As Med Ved Ned z delta_e"
    and "k_epsilon epsilon_x theta approx_lvl_s E_s As Med Ved Ned z delta_e = Inr k"
  shows "0 \<le> k"
proof -
  consider "approx_lvl_s = 1" | "approx_lvl_s = 2" | "approx_lvl_s = 3"
    | "approx_lvl_s \<noteq> 1" "approx_lvl_s \<noteq> 2" "approx_lvl_s \<noteq> 3"
    by blast
  then show ?thesis
  proof cases
    case 1
    with assms(2) show ?thesis by (simp add: k_epsilon_1)
  next
    case 2
    with assms(1) have e: "- 0.002 \<le> epsilon_x E_s As Med Ved Ned z delta_e" by simp
    from assms(2) 2 have "k_epsilon epsilon_x theta 2 E_s As Med Ved Ned z delta_e = Inr k"
      by simp
    with e show ?thesis by (rule k_epsilon_2_nonneg)
  next
    case 3
    with assms(1) have e: "- 0.002 \<le> epsilon_x E_s As Med Ved Ned z delta_e" by simp
    from assms(2) 3 have "k_epsilon epsilon_x (20 + 10000 * epsilon_x E_s As Med Ved Ned z delta_e) 2
        E_s As Med Ved Ned z delta_e = Inr k"
      by (simp add: k_epsilon_3)
    with e show ?thesis by (rule k_epsilon_2_nonneg)
  next
    case 4
    with assms(2) show ?thesis by (simp add: k_epsilon_invalid)
  qed
qed

lemma t_rd_max_1:
  "t_rd_max epsilon_x f_ck gamma_c d_k a_k theta 1 E_s As Med Ved Ned z delta_e =
     (if f_ck = 0 then Inl ZeroDivisionError
      else if f_ck < 0 then Inl TypeError
      else if gamma_c = 0 then Inl ZeroDivisionError
      else Inr (min ((30 / f_ck) powr (1 / 3)) 1 * 0.55 * f_ck * (d_k / 8) * 2 * a_k
                  * sin (theta * pi / 180) * cos (theta * pi / 180) / gamma_c))"
  by (simp add: t_rd_max_def k_c_def nfc_eq k_epsilon_1 py_div_def t_ef_def)

lemma t_rd_max_Inr_iff:
  "t_rd_max epsilon_x f_ck gamma_c d_k a_k theta approx_lvl_s E_s As Med Ved Ned z delta_e = Inr r
   \<longleftrightarrow> (\<exists>n k. nfc f_ck = Inr n
          \<and> k_epsilon epsilon_x theta approx_lvl_s E_s As Med Ved Ned z delta_e = Inr k
          \<and> gamma_c \<noteq> 0
          \<and> r = n * k * f_ck * (d_k / 8) * 2 * a_k
                  * sin (theta * pi / 180) * cos (theta * pi / 180) / gamma_c)"
  by (cases "nfc f_ck"; cases "k_epsilon epsilon_x theta approx_lvl_s E_s As Med Ved Ned z delta_e")
     (auto simp: t_rd_max_def k_c_def py_div_def t_ef_def)

lemma t_rd_eq:
  "t_rd epsilon_x v_rd_max t_ed approx_lvl_s fck bw theta z E_s As Med Ved Ned delta_e alfa f_ck d_k a_k gamma_c =
     (case t_rd_max epsilon_x f_ck gamma_c d_k a_k theta approx_lvl_s E_s As Med Ved Ned z delta_e of
        Inl e \<Rightarrow> Inl e
      | Inr t_max \<Rightarrow>
          if t_max = 0 then Inl ZeroDivisionError
          else if v_rd_max approx_lvl_s fck bw theta z E_s As Med Ved Ned delta_e alfa gamma_c = 0
            then Inl ZeroDivisionError
          else Inr ((t_ed / t_max)\<^sup>2
                 + (Ved / v_rd_max approx_lvl_s fck bw theta z E_s As Med Ved Ned delta_e alfa gamma_c)\<^sup>2 \<le> 1))"
  by (simp add: t_rd_def py_div_def split: sum.split)

subsection \<open>Values at concrete arguments\<close>

lemma t_rd_max_example:
  "t_rd_max epsilon_x 30 1.5 400 80000 45 1 E_s As Med Ved Ned z delta_e = Inr 44000000"
proof -
  have "sin (45 * pi / 180) * cos (45 * pi / 180) = sin (45 * pi / 90) / 2"
    by (rule sin_cos_degrees)
  also have "\<dots> = 1 / 2" by simp
  finally have half: "sin (pi / 4) * cos (pi / 4) = 1 / 2" by simp
  have "33 * 50 * 2 * 80000 * (sin (pi / 4) * cos (pi / 4)) / 3 = (44000000 :: real)"
    unfolding half by simp
  then show ?thesis
    by (simp add: t_rd_max_1 mult.assoc)
qed

lemma k_epsilon_2_example:
  "k_epsilon (\<lambda>E_s As Med Ved Ned z delta_e. 0.01) 45 2 200000 1000 0 0 0 300 0 = Inr (100 / 241)"
  by (simp add: k_epsilon_2 tan_45)

lemma k_epsilon_2_negative_strain:
  "k_epsilon (\<lambda>E_s As Med Ved Ned z delta_e. - 0.005) 45 2 200000 1000 0 0 0 300 0 = Inr 0.65"
  by (simp add: k_epsilon_2 tan_45)

lemma sin_cos_15: "sin (15 * pi / 180) * cos (15 * pi / 180) = 1 / 4"
proof -
  have "sin (15 * pi / 180) * cos (15 * pi / 180) = sin (15 * pi / 90) / 2"
    by (rule sin_cos_degrees)
  also have "\<dots> = 1 / 4" by (simp add: sin_30)
  finally show ?thesis .
qed

lemma sin_cos_135: "sin (135 * pi / 180) * cos (135 * pi / 180) = - (1 / 2)"
proof -
  have "sin (135 * pi / 180) * cos (135 * pi / 180) = sin (135 * pi / 90) / 2"
    by (rule sin_cos_degrees)
  also have "135 * pi / 90 = 3 / 2 * pi" by simp
  also have "sin (3 / 2 * pi) / 2 = - (1 / 2)" by (simp only: sin_3over2_pi)
  finally show ?thesis .
qed

lemma t_rd_max_135:
  "t_rd_max epsilon_x 30 1.5 400 a_k 135 1 E_s As Med Ved Ned z delta_e = Inr (- 550 * a_k)"
proof -
  have "33 * 50 * 2 * a_k * (sin (135 * pi / 180) * cos (135 * pi / 180)) / 3 = - 550 * a_k"
    unfolding sin_cos_135 by simp
  then show ?thesis
    by (simp add: t_rd_max_1 mult.assoc)
qed

subsection \<open>The claims\<close>

text \<open>
  C1: \<open>t_rd\<close> returns \<open>True\<close> exactly when both capacities are computed and
  are not zero (the two divisions raise otherwise) and
  \<open>(t_ed / t_rd_max)\<^sup>2 + (Ved / v_rd_max)\<^sup>2 \<le> 1\<close>; it returns \<open>False\<close>
  exactly when they are and the sum exceeds 1. The comparison is inclusive:
  a sum equal to 1 gives \<open>True\<close>.
\<close>

theorem t_rd_unity_check:
  "(t_rd epsilon_x v_rd_max t_ed approx_lvl_s fck bw theta z E_s As Med Ved Ned delta_e alfa f_ck d_k a_k gamma_c = Inr True
      \<longleftrightarrow> (\<exists>t_max. t_rd_max epsilon_x f_ck gamma_c d_k a_k theta approx_lvl_s E_s As Med Ved Ned z delta_e = Inr t_max
             \<and> t_max \<noteq> 0
             \<and> v_rd_max approx_lvl_s fck bw theta z E_s As Med Ved Ned delta_e alfa gamma_c \<noteq> 0
             \<and> (t_ed / t_max)\<^sup>2
               + (Ved / v_rd_max approx_lvl_s fck bw theta z E_s As Med Ved Ned delta_e alfa gamma_c)\<^sup>2 \<le> 1))
   \<and> (t_rd epsilon_x v_rd_max t_ed approx_lvl_s fck bw theta z E_s As Med Ved Ned delta_e alfa f_ck d_k a_k gamma_c = Inr False
      \<longleftrightarrow> (\<exists>t_max. t_rd_max epsilon_x f_ck gamma_c d_k a_k theta approx_lvl_s E_s As Med Ved Ned z delta_e = Inr t_max
             \<and> t_max \<noteq> 0
             \<and> v_rd_max approx_lvl_s fck bw theta z E_s As Med Ved Ned delta_e alfa gamma_c \<noteq> 0
             \<and> 1 < (t_ed / t_max)\<^sup>2
               + (Ved / v_rd_max approx_lvl_s fck bw theta z E_s As Med Ved Ned delta_e alfa gamma_c)\<^sup>2))
   \<and> (\<forall>t_max. t_rd_max epsilon_x f_ck gamma_c d_k a_k theta approx_lvl_s E_s As Med Ved Ned z delta_e = Inr t_max
             \<and> t_max \<noteq> 0
             \<and> v_rd_max approx_lvl_s fck bw theta z E_s As Med Ved Ned delta_e alfa gamma_c \<noteq> 0
             \<and> (t_ed / t_max)\<^sup>2
               + (Ved / v_rd_max approx_lvl_s fck bw theta z E_s As Med Ved Ned delta_e alfa gamma_c)\<^sup>2 = 1
        \<longrightarrow> t_rd epsilon_x v_rd_max t_ed approx_lvl_s fck bw theta z E_s As Med Ved Ned delta_e alfa f_ck d_k a_k gamma_c = Inr True)"
  unfolding t_rd_eq
  by (cases "t_rd_max epsilon_x f_ck gamma_c d_k a_k theta approx_lvl_s E_s As Med Ved Ned z delta_e")
     (auto simp: not_le)

text \<open>
  The boundary: \<open>t_ed\<close> equal to the capacity of the worked example and no
  shear, so that the sum is exactly 1.
\<close>

theorem t_rd_unity_check_witness:
  "t_rd_max (\<lambda>E_s As Med Ved Ned z delta_e. 0) 30 1.5 400 80000 45 1 200000 1000 0 0 0 300 0 = Inr 44000000
   \<and> ((44000000 / 44000000)\<^sup>2 + (0 / 1)\<^sup>2 = (1::real))
   \<and> t_rd (\<lambda>E_s As Med Ved Ned z delta_e. 0)
          (\<lambda>approx_lvl_s fck bw theta z E_s As Med Ved Ned delta_e alfa gamma_c. 1)
          44000000 1 30 200 45 300 200000 1000 0 0 0 0 90 30 400 80000 1.5 = Inr True"
  using t_rd_unity_check [of "\<lambda>E_s As Med Ved Ned z delta_e. 0"
          "\<lambda>approx_lvl_s fck bw theta z E_s As Med Ved Ned delta_e alfa gamma_c. 1"
          44000000 1 30 200 45 300 200000 1000 0 0 0 0 90 30 400 80000 "1.5"]
        t_rd_max_example [of "\<lambda>E_s As Med Ved Ned z delta_e. 0" 200000 1000 0 0 0 300 0]
  by simp

text \<open>
  C2: at approximation level 1 \<open>t_rd_max\<close> is the closed form with the constant
  \<open>k_epsilon = 0.55\<close>, wherever the closed form has a value: the division
  \<open>30 / f_ck\<close> raises for \<open>f_ck = 0\<close>, the cube root of a negative quotient
  is no real for Python, and the final division raises for \<open>gamma_c = 0\<close>. The
  result, value or exception, is the same for any two choices of
  \<open>E_s, As, Med, Ved, Ned, z, delta_e\<close>.
\<close>

theorem t_rd_max_level_1_closed_form:
  "t_rd_max epsilon_x f_ck gamma_c d_k a_k theta 1 E_s As Med Ved Ned z delta_e =
     (if f_ck = 0 then Inl ZeroDivisionError
      else if f_ck < 0 then Inl TypeError
      else if gamma_c = 0 then Inl ZeroDivisionError
      else Inr (min ((30 / f_ck) powr (1 / 3)) 1 * 0.55 * f_ck * (d_k / 8) * 2 * a_k
                  * sin (theta * pi / 180) * cos (theta * pi / 180) / gamma_c))
   \<and> t_rd_max epsilon_x f_ck gamma_c d_k a_k theta 1 E_s As Med Ved Ned z delta_e
     = t_rd_max epsilon_x f_ck gamma_c d_k a_k theta 1 E_s' As' Med' Ved' Ned' z' delta_e'"
  by (simp only: t_rd_max_1 simp_thms)

text \<open>
  C3, as the code has it: at level 4 the call raises, but what it raises is the
  \<open>UnboundLocalError\<close> of the local variable \<open>k_epsilon\<close> that no branch
  has assigned, not an invalid-argument error.
\<close>

theorem t_rd_max_invalid_level_counterexample:
  "t_rd_max (\<lambda>E_s As Med Ved Ned z delta_e. 0) 30 1.5 400 80000 45 4 200000 1000 0 0 0 300 0
     = Inl UnboundLocalError
   \<and> t_rd_max (\<lambda>E_s As Med Ved Ned z delta_e. 0) 30 1.5 400 80000 45 4 200000 1000 0 0 0 300 0
     \<noteq> Inl ValueError"
  by (simp add: t_rd_max_def k_c_def nfc_eq k_epsilon_invalid)

text \<open>
  C3, amended: for an approximation level other than 1, 2 and 3 \<open>t_rd_max\<close>
  returns no number and raises no invalid-argument error. It raises the
  \<open>UnboundLocalError\<close> of the unset \<open>k_epsilon\<close> (line 76) for \<open>f_ck > 0\<close>;
  for \<open>f_ck = 0\<close> and \<open>f_ck < 0\<close> line 61 has already raised
  \<open>ZeroDivisionError\<close> and \<open>TypeError\<close>, before the level is read.
\<close>

theorem t_rd_max_invalid_level:
  assumes "approx_lvl_s \<notin> {1, 2, 3}"
  shows "t_rd_max epsilon_x f_ck gamma_c d_k a_k theta approx_lvl_s E_s As Med Ved Ned z delta_e =
           Inl (if f_ck = 0 then ZeroDivisionError
                else if f_ck < 0 then TypeError
                else UnboundLocalError)
       \<and> (\<forall>r. t_rd_max epsilon_x f_ck gamma_c d_k a_k theta approx_lvl_s E_s As Med Ved Ned z delta_e \<noteq> Inr r)
       \<and> t_rd_max epsilon_x f_ck gamma_c d_k a_k theta approx_lvl_s E_s As Med Ved Ned z delta_e \<noteq> Inl ValueError"
  using assms by (simp add: t_rd_max_def k_c_def nfc_eq k_epsilon_invalid)

theorem t_rd_max_invalid_level_witness:
  "(4::int) \<notin> {1, 2, 3}
   \<and> t_rd_max (\<lambda>E_s As Med Ved Ned z delta_e. 0) 30 1.5 400 80000 45 4 200000 1000 0 0 0 300 0
       = Inl UnboundLocalError
   \<and> t_rd_max (\<lambda>E_s As Med Ved Ned z delta_e. 0) 0 1.5 400 80000 45 4 200000 1000 0 0 0 300 0
       = Inl ZeroDivisionError
   \<and> t_rd_max (\<lambda>E_s As Med Ved Ned z delta_e. 0) (- 30) 1.5 400 80000 45 4 200000 1000 0 0 0 300 0
       = Inl TypeError"
  using t_rd_max_invalid_level [of 4 "\<lambda>E_s As Med Ved Ned z delta_e. 0" 30 "1.5" 400 80000 45 200000 1000 0 0 0 300 0]
        t_rd_max_invalid_level [of 4 "\<lambda>E_s As Med Ved Ned z delta_e. 0" 0 "1.5" 400 80000 45 200000 1000 0 0 0 300 0]
        t_rd_max_invalid_level [of 4 "\<lambda>E_s As Med Ved Ned z delta_e. 0" "- 30" "1.5" 400 80000 45 200000 1000 0 0 0 300 0]
  by simp

text \<open>
  C4: at level 3 the refined angle \<open>theta_min = 20 + 10000 * epsilon_x(...)\<close>
  stands only under the cotangent of \<open>epsilon_1\<close>, and the sine and cosine of
  the returned product are those of the argument \<open>theta\<close>: wherever the call
  returns, its value is the expression below. The argument \<open>theta\<close> does not
  enter \<open>k_epsilon\<close> at this level.
\<close>

theorem t_rd_max_level_3_angles:
  assumes "0 < f_ck" and "gamma_c \<noteq> 0"
    and "tan ((20 + 10000 * epsilon_x E_s As Med Ved Ned z delta_e) * pi / 180) \<noteq> 0"
    and "1.2 + 55 * (epsilon_x E_s As Med Ved Ned z delta_e
                + (epsilon_x E_s As Med Ved Ned z delta_e + 0.002)
                  * (1 / tan ((20 + 10000 * epsilon_x E_s As Med Ved Ned z delta_e) * pi / 180))\<^sup>2) \<noteq> 0"
  shows "t_rd_max epsilon_x f_ck gamma_c d_k a_k theta 3 E_s As Med Ved Ned z delta_e =
     Inr (min ((30 / f_ck) powr (1 / 3)) 1
          * min (1 / (1.2 + 55 * (epsilon_x E_s As Med Ved Ned z delta_e
                + (epsilon_x E_s As Med Ved Ned z delta_e + 0.002)
                  * (1 / tan ((20 + 10000 * epsilon_x E_s As Med Ved Ned z delta_e) * pi / 180))\<^sup>2))) 0.65
          * f_ck * (d_k / 8) * 2 * a_k
          * sin (theta * pi / 180) * cos (theta * pi / 180) / gamma_c)
   \<and> k_epsilon epsilon_x theta 3 E_s As Med Ved Ned z delta_e
     = k_epsilon epsilon_x theta' 3 E_s As Med Ved Ned z delta_e"
  using assms
  by (simp add: t_rd_max_def k_c_def nfc_eq k_epsilon_3 k_epsilon_2 py_div_def t_ef_def)

text \<open>
  With \<open>epsilon_x = 0.0025\<close> the refined angle is 45 degrees and the argument
  is 15 degrees: the value is the one of \<open>sin * cos = 1 / 4\<close>, half
  of what the sine and cosine of \<open>theta_min\<close> would give.
\<close>

theorem t_rd_max_level_3_angles_witness:
  "t_rd_max (\<lambda>E_s As Med Ved Ned z delta_e. 0.0025) 30 1.5 400 80000 15 3 200000 1000 0 0 0 300 0
     = Inr (8000000000 / 317)"
proof -
  let ?e = "\<lambda>E_s As Med Ved Ned z delta_e :: real. 0.0025 :: real"
  have t: "tan ((20 + 10000 * ?e 200000 1000 0 0 0 300 0) * pi / 180) = 1"
    by (simp add: tan_45)
  have "t_rd_max ?e 30 1.5 400 80000 15 3 200000 1000 0 0 0 300 0 =
     Inr (min ((30 / 30) powr (1 / 3)) 1
          * min (1 / (1.2 + 55 * (?e 200000 1000 0 0 0 300 0
                + (?e 200000 1000 0 0 0 300 0 + 0.002)
                  * (1 / tan ((20 + 10000 * ?e 200000 1000 0 0 0 300 0) * pi / 180))\<^sup>2))) 0.65
          * 30 * (400 / 8) * 2 * 80000
          * sin (15 * pi / 180) * cos (15 * pi / 180) / 1.5)"
    using t_rd_max_level_3_angles [of 30 "1.5" ?e 200000 1000 0 0 0 300 0 400 80000 15 15]
    unfolding t by simp
  also have "\<dots> = Inr (min ((30 / 30) powr (1 / 3)) 1
          * min (1 / (1.2 + 55 * (0.0025 + (0.0025 + 0.002) * (1 / 1)\<^sup>2))) 0.65
          * 30 * (400 / 8) * 2 * 80000
          * (sin (15 * pi / 180) * cos (15 * pi / 180)) / 1.5)"
    unfolding t by (simp only: mult.assoc)
  also have "\<dots> = Inr (8000000000 / 317)"
    unfolding sin_cos_15 by simp
  finally show ?thesis .
qed

text \<open>
  C5: at levels 2 and 3 the value assigned to \<open>k_epsilon\<close> is at most 0.65,
  whatever \<open>epsilon_x\<close> returns and whatever the other arguments are.
\<close>

theorem k_epsilon_never_exceeds_065:
  assumes "approx_lvl_s = 2 \<or> approx_lvl_s = 3"
    and "k_epsilon epsilon_x theta approx_lvl_s E_s As Med Ved Ned z delta_e = Inr k"
  shows "k \<le> 0.65"
  using assms by (auto simp: k_epsilon_3 k_epsilon_2 split: if_splits)

theorem k_epsilon_never_exceeds_065_witness:
  "k_epsilon (\<lambda>E_s As Med Ved Ned z delta_e. 0.01) 45 2 200000 1000 0 0 0 300 0 = Inr (100 / 241)
   \<and> (100 / 241 :: real) \<le> 0.65"
  using k_epsilon_never_exceeds_065 [of 2 "\<lambda>E_s As Med Ved Ned z delta_e. 0.01" 45 200000 1000 0 0 0 300 0 "100 / 241"]
        k_epsilon_2_example
  by simp

text \<open>
  C6: \<open>nfc\<close> is at most 1. For \<open>f_ck \<ge> 30\<close> it is the cube root of
  \<open>30 / f_ck\<close>, which is at most 1; for \<open>0 < f_ck < 30\<close> the cube root
  exceeds 1 and \<open>nfc\<close> is 1. Every value \<open>t_rd_max\<close> returns is the
  product formed with this clamped factor.
\<close>

theorem nfc_never_exceeds_1:
  "(30 \<le> f_ck \<longrightarrow> nfc f_ck = Inr ((30 / f_ck) powr (1 / 3)) \<and> (30 / f_ck) powr (1 / 3) \<le> 1)
   \<and> (0 < f_ck \<and> f_ck < 30 \<longrightarrow> 1 < (30 / f_ck) powr (1 / 3) \<and> nfc f_ck = Inr 1)
   \<and> (\<forall>n. nfc f_ck = Inr n \<longrightarrow> n \<le> 1)
   \<and> (\<forall>r. t_rd_max epsilon_x f_ck gamma_c d_k a_k theta approx_lvl_s E_s As Med Ved Ned z delta_e = Inr r
        \<longrightarrow> (\<exists>n k. nfc f_ck = Inr n \<and> n \<le> 1
               \<and> k_epsilon epsilon_x theta approx_lvl_s E_s As Med Ved Ned z delta_e = Inr k
               \<and> r = n * k * f_ck * (d_k / 8) * 2 * a_k
                       * sin (theta * pi / 180) * cos (theta * pi / 180) / gamma_c))"
proof (intro conjI impI allI)
  assume "30 \<le> f_ck"
  then show "nfc f_ck = Inr ((30 / f_ck) powr (1 / 3))"
    using cube_root_le_1 [of f_ck] by (simp add: nfc_eq min_def)
next
  assume "30 \<le> f_ck"
  then show "(30 / f_ck) powr (1 / 3) \<le> 1" by (rule cube_root_le_1)
next
  assume "0 < f_ck \<and> f_ck < 30"
  then show "1 < (30 / f_ck) powr (1 / 3)" by (simp add: cube_root_gt_1)
next
  assume a: "0 < f_ck \<and> f_ck < 30"
  then have "1 < (30 / f_ck) powr (1 / 3)" by (simp add: cube_root_gt_1)
  then have m: "min ((30 / f_ck) powr (1 / 3)) 1 = 1"
    by (intro min_absorb2 less_imp_le)
  from a have "nfc f_ck = Inr (min ((30 / f_ck) powr (1 / 3)) 1)"
    by (simp add: nfc_eq)
  then show "nfc f_ck = Inr 1"
    by (simp only: m)
next
  fix n assume "nfc f_ck = Inr n"
  then show "n \<le> 1" by (rule nfc_le_1)
next
  fix r
  assume "t_rd_max epsilon_x f_ck gamma_c d_k a_k theta approx_lvl_s E_s As Med Ved Ned z delta_e = Inr r"
  then show "\<exists>n k. nfc f_ck = Inr n \<and> n \<le> 1
               \<and> k_epsilon epsilon_x theta approx_lvl_s E_s As Med Ved Ned z delta_e = Inr k
               \<and> r = n * k * f_ck * (d_k / 8) * 2 * a_k
                       * sin (theta * pi / 180) * cos (theta * pi / 180) / gamma_c"
    unfolding t_rd_max_Inr_iff using nfc_le_1 by blast
qed

theorem nfc_never_exceeds_1_witness:
  "nfc 40 = Inr ((30 / 40) powr (1 / 3)) \<and> (30 / 40 :: real) powr (1 / 3) \<le> 1
   \<and> 1 < (30 / 20 :: real) powr (1 / 3) \<and> nfc 20 = Inr 1
   \<and> nfc 30 = Inr 1
   \<and> (\<exists>n k. nfc 30 = Inr n \<and> n \<le> 1
         \<and> k_epsilon (\<lambda>E_s As Med Ved Ned z delta_e. 0) 45 1 200000 1000 0 0 0 300 0 = Inr k
         \<and> 44000000 = n * k * 30 * (400 / 8) * 2 * 80000
                       * sin (45 * pi / 180) * cos (45 * pi / 180) / 1.5)"
proof -
  let ?e = "\<lambda>E_s As Med Ved Ned z delta_e :: real. 0 :: real"
  note hi = nfc_never_exceeds_1 [of 40 ?e "1.5" 400 80000 45 1 200000 1000 0 0 0 300 0]
  note lo = nfc_never_exceeds_1 [of 20 ?e "1.5" 400 80000 45 1 200000 1000 0 0 0 300 0]
  note ex = nfc_never_exceeds_1 [of 30 ?e "1.5" 400 80000 45 1 200000 1000 0 0 0 300 0]
  have "nfc 40 = Inr ((30 / 40) powr (1 / 3)) \<and> (30 / 40 :: real) powr (1 / 3) \<le> 1"
    using hi by simp
  moreover have "1 < (30 / 20 :: real) powr (1 / 3) \<and> nfc 20 = Inr 1"
    using lo by simp
  moreover have "nfc 30 = Inr 1" using ex by simp
  moreover have "\<exists>n k. nfc 30 = Inr n \<and> n \<le> 1
         \<and> k_epsilon ?e 45 1 200000 1000 0 0 0 300 0 = Inr k
         \<and> 44000000 = n * k * 30 * (400 / 8) * 2 * 80000
                       * sin (45 * pi / 180) * cos (45 * pi / 180) / 1.5"
    using ex t_rd_max_example [of ?e 200000 1000 0 0 0 300 0] by blast
  ultimately show ?thesis by blast
qed

text \<open>
  C7: for \<open>a_k \<noteq> 0\<close>, \<open>v_ed_ti t_ed a_k z_i\<close> returns \<open>t_ed * z_i / (2 * a_k)\<close>,
  and doubling \<open>t_ed\<close> doubles the value returned.
\<close>

theorem v_ed_ti_value_and_linear:
  assumes "a_k \<noteq> 0"
  shows "v_ed_ti t_ed a_k z_i = Inr (t_ed * z_i / (2 * a_k))
       \<and> v_ed_ti (2 * t_ed) a_k z_i = Inr (2 * (t_ed * z_i / (2 * a_k)))"
  using assms by (simp add: v_ed_ti_def py_div_def)

theorem v_ed_ti_value_and_linear_witness:
  "v_ed_ti 5000000 80000 100 = Inr 3125 \<and> v_ed_ti (2 * 5000000) 80000 100 = Inr (2 * 3125)"
  using v_ed_ti_value_and_linear [of 80000 5000000 100] by simp

text \<open>
  C8, as the code has it: \<open>t_rd_max\<close> is linear in \<open>a_k\<close>, with a
  coefficient of either sign. At \<open>theta = 135\<close> the product of sine and cosine
  is negative, and the value falls as \<open>a_k\<close> grows.
\<close>

theorem t_rd_max_mono_a_k_counterexample:
  "(1::real) \<le> 2
   \<and> t_rd_max (\<lambda>E_s As Med Ved Ned z delta_e. 0) 30 1.5 400 1 135 1 200000 1000 0 0 0 300 0 = Inr (- 550)
   \<and> t_rd_max (\<lambda>E_s As Med Ved Ned z delta_e. 0) 30 1.5 400 2 135 1 200000 1000 0 0 0 300 0 = Inr (- 1100)
   \<and> \<not> (- 550 :: real) \<le> - 1100"
  using t_rd_max_135 [of "\<lambda>E_s As Med Ved Ned z delta_e. 0" 1 200000 1000 0 0 0 300 0]
        t_rd_max_135 [of "\<lambda>E_s As Med Ved Ned z delta_e. 0" 2 200000 1000 0 0 0 300 0]
  by simp

text \<open>
  C8, amended: for \<open>f_ck > 0\<close>, \<open>gamma_c > 0\<close>, \<open>d_k \<ge> 0\<close>,
  \<open>0 \<le> theta \<le> 90\<close> and a strain factor \<open>k_epsilon\<close> that is computed
  and not negative, \<open>t_rd_max\<close> returns at every \<open>a_k\<close> and does not
  decrease as \<open>a_k\<close> grows.
\<close>

theorem t_rd_max_mono_a_k:
  assumes "0 < f_ck" and "0 < gamma_c" and "0 \<le> d_k" and "0 \<le> theta" and "theta \<le> 90"
    and "k_epsilon epsilon_x theta approx_lvl_s E_s As Med Ved Ned z delta_e = Inr k"
    and "0 \<le> k"
    and "a_k1 \<le> a_k2"
  shows "\<exists>r1 r2.
           t_rd_max epsilon_x f_ck gamma_c d_k a_k1 theta approx_lvl_s E_s As Med Ved Ned z delta_e = Inr r1
         \<and> t_rd_max epsilon_x f_ck gamma_c d_k a_k2 theta approx_lvl_s E_s As Med Ved Ned z delta_e = Inr r2
         \<and> r1 \<le> r2"
proof -
  let ?sc = "sin (theta * pi / 180) * cos (theta * pi / 180)"
  let ?n = "min ((30 / f_ck) powr (1 / 3)) 1"
  let ?r = "\<lambda>a. ?n * k * f_ck * (d_k / 8) * 2 * a
                  * sin (theta * pi / 180) * cos (theta * pi / 180) / gamma_c"
  have n: "nfc f_ck = Inr ?n" using assms(1) by (simp add: nfc_eq)
  have ret: "t_rd_max epsilon_x f_ck gamma_c d_k a theta approx_lvl_s E_s As Med Ved Ned z delta_e
               = Inr (?r a)" for a
    unfolding t_rd_max_Inr_iff using n assms(2,6) by auto
  have n0: "0 \<le> ?n" using n by (rule nfc_nonneg)
  have sc0: "0 \<le> ?sc" using assms(4,5) by (rule sin_cos_nonneg)
  have c1: "0 \<le> ?n * k * f_ck * (d_k / 8) * 2 / gamma_c"
    using n0 assms(1,2,3,7) by (intro divide_nonneg_pos mult_nonneg_nonneg) simp_all
  have c0: "0 \<le> ?n * k * f_ck * (d_k / 8) * 2 / gamma_c * ?sc"
    using c1 sc0 by (rule mult_nonneg_nonneg)
  have eq: "?r a = ?n * k * f_ck * (d_k / 8) * 2 / gamma_c * ?sc * a" for a
    by simp
  have "?n * k * f_ck * (d_k / 8) * 2 / gamma_c * ?sc * a_k1
        \<le> ?n * k * f_ck * (d_k / 8) * 2 / gamma_c * ?sc * a_k2"
    using assms(8) c0 by (rule mult_left_mono)
  then have "?r a_k1 \<le> ?r a_k2"
    by (simp only: eq)
  with ret [of a_k1] ret [of a_k2] show ?thesis by blast
qed

text \<open>
  Level 2 with \<open>epsilon_x = -0.005\<close> at 45 degrees: \<open>epsilon_1 = -0.008\<close>,
  \<open>1 / (1.2 - 0.44)\<close> exceeds 0.65, and \<open>k_epsilon\<close> is 0.65.
\<close>

theorem t_rd_max_mono_a_k_witness:
  "\<exists>r1 r2.
     t_rd_max (\<lambda>E_s As Med Ved Ned z delta_e. - 0.005) 30 1.5 400 80000 45 2 200000 1000 0 0 0 300 0 = Inr r1
   \<and> t_rd_max (\<lambda>E_s As Med Ved Ned z delta_e. - 0.005) 30 1.5 400 160000 45 2 200000 1000 0 0 0 300 0 = Inr r2
   \<and> r1 \<le> r2"
  using t_rd_max_mono_a_k [of 30 "1.5" 400 45 "\<lambda>E_s As Med Ved Ned z delta_e. - 0.005" 2
          200000 1000 0 0 0 300 0 "0.65" 80000 160000]
        k_epsilon_2_negative_strain
  by simp

text \<open>
  C9: the worked example. With \<open>f_ck = 30\<close>, \<open>gamma_c = 1.5\<close>, \<open>d_k = 400\<close>,
  \<open>a_k = 80000\<close>, \<open>theta = 45\<close> at level 1, and any values of the seven
  other arguments: \<open>t_ef = 50\<close>, \<open>nfc = 1\<close>, \<open>k_epsilon = 0.55\<close>,
  \<open>k_c = 0.55\<close>, and \<open>t_rd_max\<close> returns 44000000, exactly, in real arithmetic.
\<close>

theorem t_rd_max_worked_example:
  "t_ef 400 = 50
   \<and> nfc 30 = Inr 1
   \<and> k_epsilon epsilon_x 45 1 E_s As Med Ved Ned z delta_e = Inr 0.55
   \<and> k_c epsilon_x 30 45 1 E_s As Med Ved Ned z delta_e = Inr 0.55
   \<and> t_rd_max epsilon_x 30 1.5 400 80000 45 1 E_s As Med Ved Ned z delta_e = Inr 44000000"
  using t_rd_max_example [of epsilon_x E_s As Med Ved Ned z delta_e]
  by (simp add: t_ef_def nfc_eq k_epsilon_1 k_c_def)

text \<open>
  The reflection of the angle about 45 degrees. In the real arithmetic of this
  model the level 1 result, value or exception, is the same at \<open>theta\<close> and
  at \<open>90 - theta\<close>, since \<open>sin\<close> and \<open>cos\<close> change places. This is an
  identity of the formula only: the source rounds \<^verbatim>\<open>theta * pi / 180\<close>, the
  sine, the cosine and every product separately at the two angles, and the two
  doubles it returns need not be equal.
\<close>

theorem t_rd_max_level_1_symmetric:
  "t_rd_max epsilon_x f_ck gamma_c d_k a_k theta 1 E_s As Med Ved Ned z delta_e
   = t_rd_max epsilon_x f_ck gamma_c d_k a_k (90 - theta) 1 E_s As Med Ved Ned z delta_e"
proof -
  have e: "(90 - theta) * pi / 180 = pi / 2 - theta * pi / 180"
    by (simp add: field_simps)
  have "sin ((90 - theta) * pi / 180) * cos ((90 - theta) * pi / 180)
        = sin (theta * pi / 180) * cos (theta * pi / 180)"
    unfolding e by (simp add: sin_diff cos_diff)
  then have "x * sin ((90 - theta) * pi / 180) * cos ((90 - theta) * pi / 180)
        = x * sin (theta * pi / 180) * cos (theta * pi / 180)" for x :: real
    by (simp add: mult.assoc)
  then show ?thesis
    by (simp only: t_rd_max_1)
qed

end
